theory Spec2Isabelle
  imports Main
begin

section \<open>Strings, texts and exceptions\<close>

text \<open>
  The program is \<^verbatim>\<open>HW10.py\<close>: an address book with validated fields
  (\<^verbatim>\<open>Name\<close>, \<^verbatim>\<open>Phone\<close>, \<^verbatim>\<open>Birthday\<close>), records, a name-keyed book and
  command handlers wrapped by the decorator \<^verbatim>\<open>input_error\<close>.

  A Python \<^verbatim>\<open>str\<close> is a sequence of Unicode code points, so it is modelled as a list
  of natural numbers, \<open>str\<close>. \<open>ascii\<close> writes such a string from its ASCII characters.

  The fixed message literals of the source are Ukrainian text. Each one is a constructor of
  \<open>phrase\<close>, named after its meaning; the messages raised by the interpreter and the
  standard library (unpacking, date construction, \<^verbatim>\<open>strptime\<close>) are phrases too. A
  result string is a \<open>message\<close>: the sequence of its fixed and interpolated parts.
\<close>

datatype phrase =
    EmptyNameMsg          \<comment> \<open>line 17: the name cannot be empty\<close>
  | PhoneFormatMsg        \<comment> \<open>line 24: the phone number must have exactly 10 digits\<close>
  | DateFormatMsg         \<comment> \<open>line 38: wrong date format, use DD.MM.YYYY\<close>
  | PhoneNotFoundMsg      \<comment> \<open>line 62: phone number not found\<close>
  | BirthdayLabel         \<comment> \<open>line 68: "birthday: "\<close>
  | BirthdayNotSet        \<comment> \<open>line 68: birthday not set\<close>
  | NameLabel             \<comment> \<open>line 72: "contact name: "\<close>
  | PhonesLabel           \<comment> \<open>line 72: ", phones: "\<close>
  | RecordNotFoundPre     \<comment> \<open>line 83: "record with name '"\<close>
  | RecordNotFoundPost    \<comment> \<open>line 83: "' not found"\<close>
  | ErrorPrefix           \<comment> \<open>line 104: "error: "\<close>
  | ContactNotFound       \<comment> \<open>lines 106, 133, 142, 152, 161: contact not found\<close>
  | NotEnoughArguments    \<comment> \<open>line 108: not enough arguments for the command\<close>
  | ContactUpdated        \<comment> \<open>line 116: contact updated\<close>
  | ContactAdded          \<comment> \<open>line 120: contact added\<close>
  | PhoneChanged          \<comment> \<open>line 132: phone number changed\<close>
  | PhonesFor             \<comment> \<open>line 141: "phones for "\<close>
  | BirthdayAdded         \<comment> \<open>line 151: birthday added\<close>
  | NoUpcoming            \<comment> \<open>line 168: no birthdays soon\<close>
  | UpcomingHeader        \<comment> \<open>line 169: "upcoming birthdays:" and a newline\<close>
  | BookEmpty             \<comment> \<open>line 177: the address book is empty\<close>
  | UnpackTooFew          \<comment> \<open>interpreter: not enough values to unpack\<close>
  | UnpackTooMany         \<comment> \<open>interpreter: too many values to unpack\<close>
  | YearOutOfRange        \<comment> \<open>datetime: year is out of range\<close>
  | MonthOutOfRange       \<comment> \<open>datetime: month must be in 1..12\<close>
  | DayOutOfRange         \<comment> \<open>datetime: day is out of range for month\<close>
  | TimeDataNoMatch       \<comment> \<open>strptime: time data does not match format\<close>
  | UnconvertedData       \<comment> \<open>strptime: unconverted data remains\<close>
  | InvalidLiteral        \<comment> \<open>int: invalid literal for int() with base 10\<close>

type_synonym codepoint = nat

type_synonym str = "codepoint list"

abbreviation ascii :: "string \<Rightarrow> str" where
  "ascii s \<equiv> map of_char s"

datatype chunk = Fixed phrase | Text str

type_synonym message = "chunk list"

text \<open>
  The exceptions of the program. \<^verbatim>\<open>input_error\<close> catches the first three; \<open>TypeError\<close>
  stands for every exception it lets through.
\<close>

datatype exn = ValueError message | KeyError | IndexError | TypeError

text \<open>\<^verbatim>\<open>sep.join(xs)\<close> on strings and on texts.\<close>

fun join :: "'a list \<Rightarrow> 'a list list \<Rightarrow> 'a list" where
  "join sep [] = []"
| "join sep [x] = x"
| "join sep (x # y # ys) = x @ sep @ join sep (y # ys)"

definition newline :: str where
  "newline = [10]"

section \<open>Character classes of the interpreter\<close>

text \<open>
  The decimal digits of Unicode (general category Nd) come in runs of ten consecutive code
  points, from the digit zero of a script to its digit nine. \<open>digit_zeros\<close> lists the
  zeros of the Unicode Character Database 14.0, the one CPython 3.11 carries; the first is
  the ASCII \<open>0\<close>, the second the Arabic-Indic zero U+0660. \<open>todecimal\<close> is the digit
  value of a code point, if it is a decimal digit, and \<open>is_digit\<close> is the class
  \<^verbatim>\<open>\d\<close> of the regular expressions on a \<^verbatim>\<open>str\<close>.
\<close>

definition digit_zeros :: "codepoint list" where
  "digit_zeros =
     [48, 1632, 1776, 1984, 2406, 2534, 2662, 2790, 2918, 3046, 3174, 3302, 3430, 3558,
      3664, 3792, 3872, 4160, 4240, 6112, 6160, 6470, 6608, 6784, 6800, 6992, 7088, 7232,
      7248, 42528, 43216, 43264, 43472, 43504, 43600, 44016, 65296, 66720, 68912, 69734,
      69872, 69942, 70096, 70384, 70736, 70864, 71248, 71360, 71472, 71904, 72016, 72784,
      73040, 73120, 92768, 92864, 93008, 120782, 120792, 120802, 120812, 120822, 123200,
      123632, 125264, 130032]"

definition todecimal :: "codepoint \<Rightarrow> nat option" where
  "todecimal c = map_option (\<lambda>z. c - z) (find (\<lambda>z. z \<le> c \<and> c < z + 10) digit_zeros)"

definition is_digit :: "codepoint \<Rightarrow> bool" where
  "is_digit c = (todecimal c \<noteq> None)"

text \<open>The whitespace characters: those that \<^verbatim>\<open>str.isspace\<close> accepts and \<^verbatim>\<open>int\<close> strips.\<close>

definition whitespace :: "codepoint list" where
  "whitespace =
     [9, 10, 11, 12, 13, 28, 29, 30, 31, 32, 133, 160, 5760, 8192, 8193, 8194, 8195, 8196,
      8197, 8198, 8199, 8200, 8201, 8202, 8232, 8233, 8239, 8287, 12288]"

definition isspace :: "codepoint \<Rightarrow> bool" where
  "isspace c = (c \<in> set whitespace)"

section \<open>Regular expressions (module re)\<close>

text \<open>
  The fragment of Python's regular expressions that the program and \<^verbatim>\<open>strptime\<close> use:
  a literal character, \<^verbatim>\<open>\d\<close>, a character range \<^verbatim>\<open>[a-b]\<close>, concatenation,
  alternation \<^verbatim>\<open>r|s\<close>, a counted repetition \<^verbatim>\<open>r{n}\<close> and a named
  group \<^verbatim>\<open>(?P<n>r)\<close>. The literals and the ends of the ranges of a pattern are
  ASCII characters; the input is any \<^verbatim>\<open>str\<close>.

  \<open>rmatch r s\<close> lists the ways \<open>r\<close> matches a prefix of \<open>s\<close>, in the order in which
  the backtracking matcher tries them: the captured groups and the rest of the input.
\<close>

datatype regex =
    Chr char
  | Digit
  | Range char char
  | Cat regex regex
  | Alt regex regex
  | Rep nat regex
  | Group string regex

fun weight :: "regex \<Rightarrow> nat" where
  "weight (Cat r1 r2) = Suc (weight r1 + weight r2)"
| "weight (Alt r1 r2) = Suc (weight r1 + weight r2)"
| "weight (Rep n r) = Suc (n + weight r)"
| "weight (Group n r) = Suc (weight r)"
| "weight _ = 0"

type_synonym groups = "(string \<times> str) list"

function rmatch :: "regex \<Rightarrow> str \<Rightarrow> (groups \<times> str) list" where
  "rmatch (Chr c) s =
     (case s of [] \<Rightarrow> [] | x # xs \<Rightarrow> if x = of_char c then [([], xs)] else [])"
| "rmatch Digit s = (case s of [] \<Rightarrow> [] | x # xs \<Rightarrow> if is_digit x then [([], xs)] else [])"
| "rmatch (Range a b) s =
     (case s of [] \<Rightarrow> []
      | x # xs \<Rightarrow> if of_char a \<le> x \<and> x \<le> of_char b then [([], xs)] else [])"
| "rmatch (Cat r1 r2) s =
     concat (map (\<lambda>(g1, s1). map (\<lambda>(g2, s2). (g1 @ g2, s2)) (rmatch r2 s1)) (rmatch r1 s))"
| "rmatch (Alt r1 r2) s = rmatch r1 s @ rmatch r2 s"
| "rmatch (Rep 0 r) s = [([], s)]"
| "rmatch (Rep (Suc n) r) s =
     concat (map (\<lambda>(g1, s1). map (\<lambda>(g2, s2). (g1 @ g2, s2)) (rmatch (Rep n r) s1)) (rmatch r s))"
| "rmatch (Group n r) s =
     map (\<lambda>(g, s1). ((n, take (length s - length s1) s) # g, s1)) (rmatch r s)"
  by pat_completeness auto
termination
  by (relation "measure (\<lambda>(r, s). weight r)") auto

text \<open>
  \<^verbatim>\<open>re.match\<close> returns the first match at the start of the string;
  \<^verbatim>\<open>re.fullmatch\<close> the first one that consumes the whole string.
\<close>

definition re_match :: "regex \<Rightarrow> str \<Rightarrow> (groups \<times> str) option" where
  "re_match r s = (case rmatch r s of [] \<Rightarrow> None | m # ms \<Rightarrow> Some m)"

definition fullmatch :: "regex \<Rightarrow> str \<Rightarrow> (groups \<times> str) option" where
  "fullmatch r s = find (\<lambda>(g, rest). rest = []) (rmatch r s)"

section \<open>Dates (module datetime)\<close>

record date =
  year :: int
  month :: int
  day :: int

definition is_leap :: "int \<Rightarrow> bool" where
  "is_leap y = (y mod 4 = 0 \<and> (y mod 100 \<noteq> 0 \<or> y mod 400 = 0))"

definition days_in_month :: "int \<Rightarrow> int \<Rightarrow> int" where
  "days_in_month y m =
     (if m = 2 then (if is_leap y then 29 else 28)
      else if m = 4 \<or> m = 6 \<or> m = 9 \<or> m = 11 then 30 else 31)"

text \<open>The constructor \<^verbatim>\<open>date(year, month, day)\<close> checks its fields in this order.\<close>

definition date_new :: "int \<Rightarrow> int \<Rightarrow> int \<Rightarrow> exn + date" where
  "date_new y m d =
     (if \<not> (1 \<le> y \<and> y \<le> 9999) then Inl (ValueError [Fixed YearOutOfRange])
      else if \<not> (1 \<le> m \<and> m \<le> 12) then Inl (ValueError [Fixed MonthOutOfRange])
      else if \<not> (1 \<le> d \<and> d \<le> days_in_month y m) then Inl (ValueError [Fixed DayOutOfRange])
      else Inr \<lparr>year = y, month = m, day = d\<rparr>)"

text \<open>\<^verbatim>\<open>d.replace(year=y)\<close> builds a new date from the changed fields.\<close>

definition replace_year :: "date \<Rightarrow> int \<Rightarrow> exn + date" where
  "replace_year d y = date_new y (month d) (day d)"

definition days_before_year :: "int \<Rightarrow> int" where
  "days_before_year y = (let y1 = y - 1 in y1 * 365 + y1 div 4 - y1 div 100 + y1 div 400)"

definition days_before_month :: "int \<Rightarrow> int \<Rightarrow> int" where
  "days_before_month y m = sum_list (map (days_in_month y) [1..m - 1])"

definition toordinal :: "date \<Rightarrow> int" where
  "toordinal d = days_before_year (year d) + days_before_month (year d) (month d) + day d"

text \<open>\<^verbatim>\<open>(a - b).days\<close> for two dates.\<close>

definition days_between :: "date \<Rightarrow> date \<Rightarrow> int" where
  "days_between a b = toordinal a - toordinal b"

subsection \<open>Parsing: strptime with the format %d.%m.%Y\<close>

text \<open>
  \<^verbatim>\<open>int(s)\<close> on the strings the parser hands to it: surrounding whitespace is
  stripped, and what is left must be a non-empty run of decimal digits, of any script;
  each digit counts with its digit value.
\<close>

definition strip :: "str \<Rightarrow> str" where
  "strip s = rev (dropWhile isspace (rev (dropWhile isspace s)))"

definition digit_val :: "codepoint \<Rightarrow> int" where
  "digit_val c = (case todecimal c of Some v \<Rightarrow> int v | None \<Rightarrow> 0)"

definition py_int :: "str \<Rightarrow> exn + int" where
  "py_int s =
     (let t = strip s in
      if t \<noteq> [] \<and> list_all is_digit t
      then Inr (foldl (\<lambda>acc c. 10 * acc + digit_val c) 0 t)
      else Inl (ValueError [Fixed InvalidLiteral]))"

text \<open>
  The standard library turns each directive of the format into a named group:
  \<^verbatim>\<open>%d\<close> is \<^verbatim>\<open>(?P<d>3[0-1]|[1-2]\d|0[1-9]|[1-9]| [1-9])\<close>,
  \<^verbatim>\<open>%m\<close> is \<^verbatim>\<open>(?P<m>1[0-2]|0[1-9]|[1-9])\<close> and
  \<^verbatim>\<open>%Y\<close> is \<^verbatim>\<open>(?P<Y>\d\d\d\d)\<close>; the dots of the format stand for themselves.
\<close>

definition directive_d :: regex where
  "directive_d = Group ''d''
     (Alt (Cat (Chr CHR ''3'') (Range CHR ''0'' CHR ''1''))
     (Alt (Cat (Range CHR ''1'' CHR ''2'') Digit)
     (Alt (Cat (Chr CHR ''0'') (Range CHR ''1'' CHR ''9''))
     (Alt (Range CHR ''1'' CHR ''9'')
          (Cat (Chr CHR '' '') (Range CHR ''1'' CHR ''9''))))))"

definition directive_m :: regex where
  "directive_m = Group ''m''
     (Alt (Cat (Chr CHR ''1'') (Range CHR ''0'' CHR ''2''))
     (Alt (Cat (Chr CHR ''0'') (Range CHR ''1'' CHR ''9''))
          (Range CHR ''1'' CHR ''9'')))"

definition directive_Y :: regex where
  "directive_Y = Group ''Y'' (Cat Digit (Cat Digit (Cat Digit Digit)))"

definition format_regex :: regex where
  "format_regex =
     Cat directive_d (Cat (Chr CHR ''.'') (Cat directive_m (Cat (Chr CHR ''.'') directive_Y)))"

definition group :: "groups \<Rightarrow> string \<Rightarrow> str" where
  "group g n = (case map_of g n of Some v \<Rightarrow> v | None \<Rightarrow> [])"

text \<open>
  \<^verbatim>\<open>datetime.strptime(data_string, "%d.%m.%Y").date()\<close>: the format's regular
  expression must match at the start, nothing may remain after the match, and the three
  numbers must make a date.
\<close>

definition strptime :: "str \<Rightarrow> exn + date" where
  "strptime data_string =
     (case re_match format_regex data_string of
        None \<Rightarrow> Inl (ValueError [Fixed TimeDataNoMatch])
      | Some (found, rest) \<Rightarrow>
          if rest \<noteq> [] then Inl (ValueError [Fixed UnconvertedData])
          else (case py_int (group found ''Y'') of Inl e \<Rightarrow> Inl e | Inr y \<Rightarrow>
               (case py_int (group found ''m'') of Inl e \<Rightarrow> Inl e | Inr m \<Rightarrow>
               (case py_int (group found ''d'') of Inl e \<Rightarrow> Inl e | Inr d \<Rightarrow>
                  date_new y m d))))"

subsection \<open>Formatting: strftime with the format %d.%m.%Y\<close>

text \<open>
  The interpreter hands the format to the C library. \<^verbatim>\<open>%d\<close> and \<^verbatim>\<open>%m\<close> are two
  decimal digits, zero-padded. \<^verbatim>\<open>%Y\<close> is the year as a decimal number: the C library of
  the platform (glibc) does not pad it, so a year below 1000 has fewer than four digits.
  \<open>decimal_repr\<close> is the decimal numeral of a natural number.
\<close>

definition digit_char :: "int \<Rightarrow> codepoint" where
  "digit_char n = nat (48 + n)"

definition zfill2 :: "int \<Rightarrow> str" where
  "zfill2 n = [digit_char (n div 10 mod 10), digit_char (n mod 10)]"

function decimal_repr :: "nat \<Rightarrow> str" where
  "decimal_repr n =
     (if n < 10 then [48 + n] else decimal_repr (n div 10) @ [48 + n mod 10])"
  by pat_completeness auto
termination
  by (relation "measure (\<lambda>n. n)") auto

declare decimal_repr.simps [simp del]

definition strftime :: "date \<Rightarrow> str" where
  "strftime d =
     zfill2 (day d) @ ascii ''.'' @ zfill2 (month d) @ ascii ''.'' @ decimal_repr (nat (year d))"

section \<open>Fields\<close>

text \<open>
  \<^verbatim>\<open>Name(value)\<close>, \<^verbatim>\<open>Phone(value)\<close> and \<^verbatim>\<open>Birthday(value)\<close>: each constructor
  returns the stored value or raises.
\<close>

definition Name :: "str \<Rightarrow> exn + str" where
  "Name value = (if value = [] then Inl (ValueError [Fixed EmptyNameMsg]) else Inr value)"

definition validate :: "str \<Rightarrow> bool" where
  "validate phone_number = (fullmatch (Rep 10 Digit) phone_number \<noteq> None)"

definition Phone :: "str \<Rightarrow> exn + str" where
  "Phone value =
     (if \<not> validate value then Inl (ValueError [Fixed PhoneFormatMsg]) else Inr value)"

definition Birthday :: "str \<Rightarrow> exn + date" where
  "Birthday value =
     (case strptime value of
        Inl (ValueError msg) \<Rightarrow> Inl (ValueError [Fixed DateFormatMsg])
      | Inl e \<Rightarrow> Inl e
      | Inr d \<Rightarrow> Inr d)"

definition Birthday_str :: "date \<Rightarrow> str" where
  "Birthday_str d = strftime d"

section \<open>Records\<close>

text \<open>
  A record holds the value of its name, the values of its phones in order, and its
  birthday if one is set. A method that mutates the record returns the record after the
  call; one that raises leaves it as it was.
\<close>

record Record =
  name :: str
  phones :: "str list"
  birthday :: "date option"

definition Record :: "str \<Rightarrow> exn + Record" where
  "Record n =
     (case Name n of
        Inl e \<Rightarrow> Inl e
      | Inr v \<Rightarrow> Inr \<lparr>name = v, phones = [], birthday = None\<rparr>)"

definition add_phone :: "Record \<Rightarrow> str \<Rightarrow> exn + Record" where
  "add_phone r phone =
     (case Phone phone of
        Inl e \<Rightarrow> Inl e
      | Inr new_phone \<Rightarrow> Inr (r\<lparr>phones := phones r @ [new_phone]\<rparr>))"

definition delete_phone :: "Record \<Rightarrow> str \<Rightarrow> Record" where
  "delete_phone r phone = r\<lparr>phones := filter (\<lambda>p. p \<noteq> phone) (phones r)\<rparr>"

text \<open>
  The loop of \<^verbatim>\<open>edit_phone\<close>: the first phone equal to \<open>old_phone\<close> gets the value
  \<open>new_phone\<close> and the method returns; \<open>None\<close> when the loop ends without a hit.
\<close>

fun edit_loop :: "str list \<Rightarrow> str \<Rightarrow> str \<Rightarrow> str list option" where
  "edit_loop [] old_phone new_phone = None"
| "edit_loop (p # ps) old_phone new_phone =
     (if p = old_phone then Some (new_phone # ps)
      else map_option ((#) p) (edit_loop ps old_phone new_phone))"

definition edit_phone :: "Record \<Rightarrow> str \<Rightarrow> str \<Rightarrow> exn + Record" where
  "edit_phone r old_phone new_phone =
     (case edit_loop (phones r) old_phone new_phone of
        Some ps \<Rightarrow> Inr (r\<lparr>phones := ps\<rparr>)
      | None \<Rightarrow> Inl (ValueError [Fixed PhoneNotFoundMsg]))"

definition record_add_birthday :: "Record \<Rightarrow> str \<Rightarrow> exn + Record" where
  "record_add_birthday r b =
     (case Birthday b of
        Inl e \<Rightarrow> Inl e
      | Inr d \<Rightarrow> Inr (r\<lparr>birthday := Some d\<rparr>))"

definition record_show_birthday :: "Record \<Rightarrow> message" where
  "record_show_birthday r =
     (case birthday r of
        Some d \<Rightarrow> [Fixed BirthdayLabel, Text (Birthday_str d)]
      | None \<Rightarrow> [Fixed BirthdayNotSet])"

definition Record_str :: "Record \<Rightarrow> message" where
  "Record_str r =
     [Fixed NameLabel, Text (name r), Fixed PhonesLabel, Text (join (ascii ''; '') (phones r)),
      Text (ascii '', '')] @ record_show_birthday r"

section \<open>The address book\<close>

text \<open>
  The book is a dictionary: its entries are kept in insertion order, so it is a list of
  pairs. \<open>set_item\<close> is \<^verbatim>\<open>data[key] = record\<close>: an existing key keeps its place, a
  new one goes to the end.
\<close>

type_synonym AddressBook = "(str \<times> Record) list"

fun set_item :: "AddressBook \<Rightarrow> str \<Rightarrow> Record \<Rightarrow> AddressBook" where
  "set_item [] k v = [(k, v)]"
| "set_item ((k', v') # kvs) k v =
     (if k' = k then (k, v) # kvs else (k', v') # set_item kvs k v)"

definition add_record :: "AddressBook \<Rightarrow> Record \<Rightarrow> AddressBook" where
  "add_record book record = set_item book (name record) record"

definition delete_record :: "AddressBook \<Rightarrow> str \<Rightarrow> exn + AddressBook" where
  "delete_record book n =
     (if n \<in> set (map fst book) then Inr (filter (\<lambda>(k, v). k \<noteq> n) book)
      else Inl (ValueError [Fixed RecordNotFoundPre, Text n, Fixed RecordNotFoundPost]))"

definition find_record :: "AddressBook \<Rightarrow> str \<Rightarrow> Record option" where
  "find_record book n = map_of book n"

text \<open>
  The loop of \<^verbatim>\<open>get_upcoming_birthdays\<close> over the records, with the list
  \<open>upcoming\<close> built so far. \<open>today\<close> is what \<^verbatim>\<open>datetime.now().date()\<close> returned.
\<close>

fun upcoming_loop :: "date \<Rightarrow> int \<Rightarrow> Record list \<Rightarrow> Record list \<Rightarrow> exn + Record list" where
  "upcoming_loop today days [] upcoming = Inr upcoming"
| "upcoming_loop today days (r # rs) upcoming =
     (case birthday r of
        None \<Rightarrow> upcoming_loop today days rs upcoming
      | Some b \<Rightarrow>
          (case replace_year b (year today) of
             Inl e \<Rightarrow> Inl e
           | Inr bd \<Rightarrow>
               if 0 \<le> days_between bd today \<and> days_between bd today \<le> days
               then upcoming_loop today days rs (upcoming @ [r])
               else upcoming_loop today days rs upcoming))"

definition get_upcoming_birthdays :: "date \<Rightarrow> int \<Rightarrow> AddressBook \<Rightarrow> exn + Record list" where
  "get_upcoming_birthdays today days book = upcoming_loop today days (map snd book) []"

section \<open>Command handlers\<close>

text \<open>
  A handler takes the argument list and the book and returns its result, a text or an
  exception, together with the book after the call: what it changed before raising stays
  changed. A record found in the book is the object the book holds, so a mutation of it
  is written back under the key it was found at.
\<close>

type_synonym handler = "str list \<Rightarrow> AddressBook \<Rightarrow> (exn + message) \<times> AddressBook"

definition input_error :: "handler \<Rightarrow> handler" where
  "input_error func args book =
     (case func args book of
        (Inr result, book') \<Rightarrow> (Inr result, book')
      | (Inl (ValueError e), book') \<Rightarrow> (Inr (Fixed ErrorPrefix # e), book')
      | (Inl KeyError, book') \<Rightarrow> (Inr [Fixed ContactNotFound], book')
      | (Inl IndexError, book') \<Rightarrow> (Inr [Fixed NotEnoughArguments], book')
      | (Inl e, book') \<Rightarrow> (Inl e, book'))"

text \<open>The part of \<^verbatim>\<open>add_contact\<close> after the record is in hand (lines 121 to 123).\<close>

definition add_contact_phone ::
  "str \<Rightarrow> Record \<Rightarrow> str \<Rightarrow> phrase \<Rightarrow> AddressBook \<Rightarrow> (exn + message) \<times> AddressBook" where
  "add_contact_phone n record phone message book =
     (if phone \<noteq> [] then
        (case add_phone record phone of
           Inl e \<Rightarrow> (Inl e, book)
         | Inr record' \<Rightarrow> (Inr [Fixed message], set_item book n record'))
      else (Inr [Fixed message], book))"

fun add_contact_body :: handler where
  "add_contact_body (n # phone # rest) book =
     (case find_record book n of
        None \<Rightarrow>
          (case Record n of
             Inl e \<Rightarrow> (Inl e, book)
           | Inr record \<Rightarrow>
               add_contact_phone n record phone ContactAdded (add_record book record))
      | Some record \<Rightarrow> add_contact_phone n record phone ContactUpdated book)"
| "add_contact_body args book = (Inl (ValueError [Fixed UnpackTooFew]), book)"

definition add_contact :: handler where
  "add_contact = input_error add_contact_body"

fun change_contact_body :: handler where
  "change_contact_body [n, old_phone, new_phone] book =
     (case find_record book n of
        Some record \<Rightarrow>
          (case edit_phone record old_phone new_phone of
             Inl e \<Rightarrow> (Inl e, book)
           | Inr record' \<Rightarrow> (Inr [Fixed PhoneChanged], set_item book n record'))
      | None \<Rightarrow> (Inr [Fixed ContactNotFound], book))"
| "change_contact_body args book =
     (if length args < 3 then (Inl (ValueError [Fixed UnpackTooFew]), book)
      else (Inl (ValueError [Fixed UnpackTooMany]), book))"

definition change_contact :: handler where
  "change_contact = input_error change_contact_body"

fun show_phone_body :: handler where
  "show_phone_body [] book = (Inl IndexError, book)"
| "show_phone_body (n # rest) book =
     (case find_record book n of
        Some record \<Rightarrow>
          (Inr [Fixed PhonesFor, Text n, Text (ascii '': ''),
                Text (join (ascii '', '') (phones record))], book)
      | None \<Rightarrow> (Inr [Fixed ContactNotFound], book))"

definition show_phone :: handler where
  "show_phone = input_error show_phone_body"

fun add_birthday_body :: handler where
  "add_birthday_body [n, b] book =
     (case find_record book n of
        Some record \<Rightarrow>
          (case record_add_birthday record b of
             Inl e \<Rightarrow> (Inl e, book)
           | Inr record' \<Rightarrow> (Inr [Fixed BirthdayAdded], set_item book n record'))
      | None \<Rightarrow> (Inr [Fixed ContactNotFound], book))"
| "add_birthday_body args book =
     (if length args < 2 then (Inl (ValueError [Fixed UnpackTooFew]), book)
      else (Inl (ValueError [Fixed UnpackTooMany]), book))"

definition add_birthday :: handler where
  "add_birthday = input_error add_birthday_body"

fun show_birthday_body :: handler where
  "show_birthday_body [] book = (Inl IndexError, book)"
| "show_birthday_body (n # rest) book =
     (case find_record book n of
        Some record \<Rightarrow> (Inr (record_show_birthday record), book)
      | None \<Rightarrow> (Inr [Fixed ContactNotFound], book))"

definition show_birthday :: handler where
  "show_birthday = input_error show_birthday_body"

text \<open>
  \<^verbatim>\<open>birthdays\<close> asks for the default window of 7 days. A record in the result has a
  birthday; the text of an unset one would be \<^verbatim>\<open>None\<close>.
\<close>

definition birthday_line :: "Record \<Rightarrow> message" where
  "birthday_line record =
     [Text (name record), Text (ascii '': ''),
      Text (case birthday record of Some d \<Rightarrow> Birthday_str d | None \<Rightarrow> ascii ''None''),
      Text newline]"

definition birthdays_body :: "date \<Rightarrow> handler" where
  "birthdays_body today args book =
     (case get_upcoming_birthdays today 7 book of
        Inl e \<Rightarrow> (Inl e, book)
      | Inr upcoming_birthdays \<Rightarrow>
          if upcoming_birthdays = [] then (Inr [Fixed NoUpcoming], book)
          else (Inr (Fixed UpcomingHeader # concat (map birthday_line upcoming_birthdays)),
                book))"

definition birthdays :: "date \<Rightarrow> handler" where
  "birthdays today = input_error (birthdays_body today)"

definition show_all :: "AddressBook \<Rightarrow> message" where
  "show_all book =
     (if book = [] then [Fixed BookEmpty]
      else join [Text newline] (map (\<lambda>(k, record). Record_str record) book))"

text \<open>The commands of the loop in \<^verbatim>\<open>main\<close> that call a handler, and the call each makes.\<close>

datatype command = Add | Change | PhoneCmd | All | AddBirthday | ShowBirthday | Birthdays

fun run_command :: "command \<Rightarrow> date \<Rightarrow> handler" where
  "run_command Add today args book = add_contact args book"
| "run_command Change today args book = change_contact args book"
| "run_command PhoneCmd today args book = show_phone args book"
| "run_command All today args book = (Inr (show_all book), book)"
| "run_command AddBirthday today args book = add_birthday args book"
| "run_command ShowBirthday today args book = show_birthday args book"
| "run_command Birthdays today args book = birthdays today args book"

section \<open>Notions of the specification\<close>

text \<open>
  The specification's words for the inputs it singles out, each as a predicate of its own:
  a string that is empty or has only whitespace characters, and the format invariant of a
  phone (exactly 10 decimal digit characters).
\<close>

definition whitespace_only :: "str \<Rightarrow> bool" where
  "whitespace_only s = list_all isspace s"

definition ten_digits :: "str \<Rightarrow> bool" where
  "ten_digits s = (length s = 10 \<and> list_all is_digit s)"

text \<open>
  The window test of the upcoming-birthdays query, in the specification's words: the
  record has a birthday, the birthday has a date in today's year, and that date is between
  0 and \<open>days\<close> days after today. \<open>replaceable\<close> says that the year of the record's
  birthday, if it has one, can be replaced by today's.
\<close>

definition in_window :: "date \<Rightarrow> int \<Rightarrow> Record \<Rightarrow> bool" where
  "in_window today days r =
     (case birthday r of
        None \<Rightarrow> False
      | Some b \<Rightarrow>
          (case replace_year b (year today) of
             Inl e \<Rightarrow> False
           | Inr bd \<Rightarrow> 0 \<le> days_between bd today \<and> days_between bd today \<le> days))"

definition replaceable :: "date \<Rightarrow> Record \<Rightarrow> bool" where
  "replaceable today r =
     (case birthday r of
        None \<Rightarrow> True
      | Some b \<Rightarrow> (case replace_year b (year today) of Inl e \<Rightarrow> False | Inr bd \<Rightarrow> True))"

text \<open>
  The strings that the three directives of the date format match, each as a predicate of its
  own: \<^verbatim>\<open>%d\<close> is \<^verbatim>\<open>3[0-1]|[1-2]\d|0[1-9]|[1-9]| [1-9]\<close>, \<^verbatim>\<open>%m\<close> is
  \<^verbatim>\<open>1[0-2]|0[1-9]|[1-9]\<close> and \<^verbatim>\<open>%Y\<close> is four digits. Only the places written
  \<^verbatim>\<open>\d\<close> take a digit of any script.
\<close>

abbreviation dot :: codepoint where
  "dot \<equiv> 46"

abbreviation space :: codepoint where
  "space \<equiv> 32"

definition between :: "char \<Rightarrow> char \<Rightarrow> codepoint \<Rightarrow> bool" where
  "between a b x = (of_char a \<le> x \<and> x \<le> of_char b)"

fun day_token :: "str \<Rightarrow> bool" where
  "day_token [a] = between CHR ''1'' CHR ''9'' a"
| "day_token [a, b] =
     (a = of_char CHR ''3'' \<and> between CHR ''0'' CHR ''1'' b \<or>
      between CHR ''1'' CHR ''2'' a \<and> is_digit b \<or>
      a = of_char CHR ''0'' \<and> between CHR ''1'' CHR ''9'' b \<or>
      a = space \<and> between CHR ''1'' CHR ''9'' b)"
| "day_token t = False"

fun month_token :: "str \<Rightarrow> bool" where
  "month_token [a] = between CHR ''1'' CHR ''9'' a"
| "month_token [a, b] =
     (a = of_char CHR ''1'' \<and> between CHR ''0'' CHR ''2'' b \<or>
      a = of_char CHR ''0'' \<and> between CHR ''1'' CHR ''9'' b)"
| "month_token t = False"

definition year_token :: "str \<Rightarrow> bool" where
  "year_token t = (length t = 4 \<and> list_all is_digit t)"

text \<open>
  A date string in the specification's words. \<open>number\<close> is the value of a run of decimal
  digits and \<open>real_date\<close> says that three numbers are a date of the calendar, with the year
  between 1 and 9999 as the standard library has it. \<open>split_dot\<close> cuts a string at its dots.

  \<open>padded_format\<close> is the zero-padded \<^verbatim>\<open>DD.MM.YYYY\<close>: ten characters, dots at the third and
  the sixth, the digits \<open>0\<close> to \<open>9\<close> elsewhere; \<open>padded_date\<close> is the date such a string
  denotes.

  \<open>lenient_date\<close> is the wider format: three fields between two dots, a day of one or two
  decimal digits or of a space and one digit, a month of one or two decimal digits and a
  year of four decimal digits, that make a real date; its value is that date. A decimal
  digit is one of any script.
\<close>

definition number :: "str \<Rightarrow> int" where
  "number t = foldl (\<lambda>acc c. 10 * acc + digit_val c) 0 t"

definition real_date :: "int \<Rightarrow> int \<Rightarrow> int \<Rightarrow> bool" where
  "real_date y m d =
     (1 \<le> y \<and> y \<le> 9999 \<and> 1 \<le> m \<and> m \<le> 12 \<and> 1 \<le> d \<and> d \<le> days_in_month y m)"

definition ascii_digit :: "codepoint \<Rightarrow> bool" where
  "ascii_digit c = between CHR ''0'' CHR ''9'' c"

definition padded_format :: "str \<Rightarrow> bool" where
  "padded_format s =
     (length s = 10 \<and> s ! 2 = dot \<and> s ! 5 = dot \<and>
      list_all ascii_digit (take 2 s) \<and> list_all ascii_digit (take 2 (drop 3 s)) \<and>
      list_all ascii_digit (drop 6 s))"


fun split_dot :: "str \<Rightarrow> str list" where
  "split_dot [] = [[]]"
| "split_dot (c # cs) =
     (if c = dot then [] # split_dot cs
      else (case split_dot cs of [] \<Rightarrow> [[c]] | t # ts \<Rightarrow> (c # t) # ts))"

definition day_field :: "str \<Rightarrow> bool" where
  "day_field t =
     (list_all is_digit t \<and> (length t = 1 \<or> length t = 2) \<or>
      length t = 2 \<and> hd t = space \<and> is_digit (last t))"

definition day_number :: "str \<Rightarrow> int" where
  "day_number t = number (filter is_digit t)"

definition month_field :: "str \<Rightarrow> bool" where
  "month_field t = (list_all is_digit t \<and> (length t = 1 \<or> length t = 2))"

definition year_field :: "str \<Rightarrow> bool" where
  "year_field t = (list_all is_digit t \<and> length t = 4)"

definition lenient_date :: "str \<Rightarrow> date option" where
  "lenient_date v =
     (case split_dot v of
        [ds, ms, ys] \<Rightarrow>
          if day_field ds \<and> month_field ms \<and> year_field ys \<and>
             real_date (number ys) (number ms) (day_number ds)
          then Some \<lparr>year = number ys, month = number ms, day = day_number ds\<rparr>
          else None
      | _ \<Rightarrow> None)"

section \<open>Characters and digits\<close>

lemma find_SomeD: "find P xs = Some x \<Longrightarrow> x \<in> set xs \<and> P x"
  by (induction xs) (auto split: if_splits)

lemma zeros_all_ge: "list_all (\<lambda>z. 48 \<le> z) digit_zeros"
  by (simp add: digit_zeros_def)

lemma zeros_ge: "z \<in> set digit_zeros \<Longrightarrow> 48 \<le> z"
  using zeros_all_ge by (simp add: list_all_iff)

lemma todecimal_SomeD:
  assumes "todecimal c = Some v"
  shows "v < 10" and "48 \<le> c"
proof -
  from assms obtain z where z: "find (\<lambda>z. z \<le> c \<and> c < z + 10) digit_zeros = Some z"
    and v: "v = c - z"
    by (auto simp: todecimal_def)
  from find_SomeD [OF z] have "z \<in> set digit_zeros" "z \<le> c" "c < z + 10" by auto
  with v zeros_ge [of z] show "v < 10" and "48 \<le> c" by auto
qed

lemma todecimal_ascii: "48 \<le> c \<Longrightarrow> c \<le> 57 \<Longrightarrow> todecimal c = Some (c - 48)"
  by (simp add: todecimal_def digit_zeros_def)

lemma is_digit_ascii: "48 \<le> c \<Longrightarrow> c \<le> 57 \<Longrightarrow> is_digit c"
  by (simp add: is_digit_def todecimal_ascii)

lemma digit_val_ascii: "48 \<le> c \<Longrightarrow> c \<le> 57 \<Longrightarrow> digit_val c = int c - 48"
  by (simp add: digit_val_def todecimal_ascii)

lemma is_digit_ge: "is_digit c \<Longrightarrow> 48 \<le> c"
  using todecimal_SomeD(2) by (auto simp: is_digit_def)

lemma digit_val_range: "is_digit c \<Longrightarrow> 0 \<le> digit_val c \<and> digit_val c \<le> 9"
  using todecimal_SomeD(1) [of c] by (auto simp: is_digit_def digit_val_def)

lemma spaces_not_digits: "list_all (\<lambda>w. todecimal w = None) whitespace"
  by (simp add: whitespace_def todecimal_def digit_zeros_def)

lemma digit_not_space: "is_digit c \<Longrightarrow> \<not> isspace c"
  using spaces_not_digits by (auto simp: isspace_def list_all_iff is_digit_def)

lemma digit_not_dot: "is_digit c \<Longrightarrow> c \<noteq> dot"
  using is_digit_ge [of c] by auto

text \<open>The digits of other scripts are digits too: U+0665 is the Arabic-Indic five.\<close>

lemma arabic_indic_five: "is_digit 1637 \<and> digit_val 1637 = 5"
  by (simp add: is_digit_def digit_val_def todecimal_def digit_zeros_def)

section \<open>Phone\<close>

text \<open>What \<^verbatim>\<open>\d{n}\<close> matches: the first \<open>n\<close> characters, when they are digits.\<close>

lemma rmatch_Rep_Digit:
  "rmatch (Rep n Digit) s =
     (if n \<le> length s \<and> list_all is_digit (take n s) then [([], drop n s)] else [])"
proof (induction n arbitrary: s)
  case 0
  then show ?case by simp
next
  case (Suc n)
  then show ?case by (cases s) auto
qed

lemma validate_ten_digits: "validate s \<longleftrightarrow> ten_digits s"
  by (auto simp: validate_def fullmatch_def rmatch_Rep_Digit ten_digits_def)

text \<open>
  Claim C4. \<^verbatim>\<open>Phone(s)\<close> succeeds exactly when \<open>s\<close> is 10 decimal digit characters, and
  then the stored value is \<open>s\<close>; on every other string it raises the format error. The
  decimal digit characters are those of the class \<^verbatim>\<open>\d\<close>: the digits \<open>0\<close> to \<open>9\<close> and
  the decimal digits of the other scripts of Unicode.
\<close>

theorem Phone_accepts_ten_digits:
  "Phone s = (if length s = 10 \<and> list_all is_digit s then Inr s
              else Inl (ValueError [Fixed PhoneFormatMsg]))"
  using validate_ten_digits [of s] by (simp add: Phone_def ten_digits_def)

lemmas digit_eval = is_digit_def todecimal_def digit_zeros_def

theorem Phone_accepts_ten_digits_witness:
  "Phone (ascii ''0671234567'') = Inr (ascii ''0671234567'') \<and>
   Phone (ascii ''067-123-45'') = Inl (ValueError [Fixed PhoneFormatMsg]) \<and>
   Phone [1632, 1638, 1639, 1633, 1634, 1635, 1636, 1637, 1638, 1639]
     = Inr [1632, 1638, 1639, 1633, 1634, 1635, 1636, 1637, 1638, 1639]"
  using Phone_accepts_ten_digits [of "ascii ''0671234567''"]
    Phone_accepts_ten_digits [of "ascii ''067-123-45''"]
    Phone_accepts_ten_digits [of "[1632, 1638, 1639, 1633, 1634, 1635, 1636, 1637, 1638, 1639]"]
  by (simp add: digit_eval)

section \<open>Name\<close>

text \<open>
  Claim C7, as stated, fails: a name of two spaces has only whitespace characters, and the
  constructor accepts it.
\<close>

theorem Name_whitespace_counterexample:
  "whitespace_only (ascii ''  '') \<and> Name (ascii ''  '') = Inr (ascii ''  '')"
  by (simp add: whitespace_only_def isspace_def whitespace_def Name_def)

text \<open>
  Claim C7, amended. \<^verbatim>\<open>Name(value)\<close> raises the format error exactly when \<open>value\<close>
  is the empty string; every other string, whitespace-only ones included, is accepted and
  stored as it is.
\<close>

theorem Name_rejects_only_empty:
  "(Name v = Inl (ValueError [Fixed EmptyNameMsg]) \<longleftrightarrow> v = []) \<and>
   (Name v = Inr v \<longleftrightarrow> v \<noteq> [])"
  by (simp add: Name_def)

theorem Name_rejects_only_empty_witness:
  "Name [] = Inl (ValueError [Fixed EmptyNameMsg]) \<and> Name (ascii ''Ann'') = Inr (ascii ''Ann'')"
  using Name_rejects_only_empty [of "[]"] Name_rejects_only_empty [of "ascii ''Ann''"]
  by simp

section \<open>Records and the phone invariant\<close>

text \<open>
  \<^verbatim>\<open>add_phone\<close>, \<^verbatim>\<open>delete_phone\<close> and \<^verbatim>\<open>add_birthday\<close> keep every phone of
  the record a valid one; a new record has no phone.
\<close>

lemma Record_phones: "Record n = Inr r \<Longrightarrow> phones r = []"
  by (auto simp: Record_def Name_def split: if_splits)

lemma add_phone_valid:
  "list_all validate (phones r) \<Longrightarrow> add_phone r p = Inr r' \<Longrightarrow> list_all validate (phones r')"
  by (auto simp: add_phone_def Phone_def split: if_splits)

lemma delete_phone_valid:
  "list_all validate (phones r) \<Longrightarrow> list_all validate (phones (delete_phone r p))"
  by (auto simp: delete_phone_def list_all_iff)

lemma record_add_birthday_phones:
  "record_add_birthday r b = Inr r' \<Longrightarrow> phones r' = phones r"
  by (auto simp: record_add_birthday_def split: sum.splits)

text \<open>
  Claim C1. The claim asks \<^verbatim>\<open>edit_phone\<close> to validate the new number before it
  changes anything. The method never validates it: with the new number \<open>abc\<close>, which
  \<^verbatim>\<open>Phone\<close> rejects, the call returns normally and the record's phone is \<open>abc\<close>.
\<close>

theorem edit_phone_stores_invalid_number:
  "Phone (ascii ''abc'') = Inl (ValueError [Fixed PhoneFormatMsg]) \<and>
   edit_phone \<lparr>name = ascii ''Ann'', phones = [ascii ''1234567890''], birthday = None\<rparr>
     (ascii ''1234567890'') (ascii ''abc'')
   = Inr \<lparr>name = ascii ''Ann'', phones = [ascii ''abc''], birthday = None\<rparr>"
  by (simp add: Phone_def validate_ten_digits ten_digits_def edit_phone_def)

text \<open>
  Claim C2. The claim asks every phone of a record to be 10 decimal digits after any
  sequence of its operations. A new record, \<^verbatim>\<open>add_phone\<close> of a valid number and
  \<^verbatim>\<open>edit_phone\<close> to \<open>12-34\<close> leave a record whose only phone is not one.
\<close>

theorem phone_invariant_broken_by_edit:
  "Record (ascii ''Bob'') = Inr \<lparr>name = ascii ''Bob'', phones = [], birthday = None\<rparr> \<and>
   add_phone \<lparr>name = ascii ''Bob'', phones = [], birthday = None\<rparr> (ascii ''0501112233'')
     = Inr \<lparr>name = ascii ''Bob'', phones = [ascii ''0501112233''], birthday = None\<rparr> \<and>
   edit_phone \<lparr>name = ascii ''Bob'', phones = [ascii ''0501112233''], birthday = None\<rparr>
     (ascii ''0501112233'') (ascii ''12-34'')
     = Inr \<lparr>name = ascii ''Bob'', phones = [ascii ''12-34''], birthday = None\<rparr> \<and>
   \<not> ten_digits (ascii ''12-34'')"
  by (simp add: Record_def Name_def add_phone_def Phone_def validate_ten_digits ten_digits_def
      digit_eval edit_phone_def)

section \<open>Birthday\<close>

subsection \<open>What the format's regular expression matches\<close>

lemma mem_Chr: "(g, r) \<in> set (rmatch (Chr c) s) \<longleftrightarrow> s = of_char c # r \<and> g = []"
  by (cases s) auto

lemma mem_Cat:
  "(g, r) \<in> set (rmatch (Cat r1 r2) s) \<longleftrightarrow>
   (\<exists>g1 s1 g2. (g1, s1) \<in> set (rmatch r1 s) \<and> (g2, r) \<in> set (rmatch r2 s1) \<and> g = g1 @ g2)"
  by force

text \<open>The day directive, on an input of no, one, or at least two characters.\<close>

lemma day_nil: "rmatch directive_d [] = []"
  by (simp add: directive_d_def between_def)

lemma day_one: "set (rmatch directive_d [a]) = (if day_token [a] then {([(''d'', [a])], [])} else {})"
  by (simp add: directive_d_def between_def)

lemma day_two:
  "set (rmatch directive_d (a # b # r)) =
     (if day_token [a, b] then {([(''d'', [a, b])], r)} else {}) \<union>
     (if day_token [a] then {([(''d'', [a])], b # r)} else {})"
  by (simp add: directive_d_def between_def)

lemma day_shape: "day_token t \<Longrightarrow> (\<exists>a. t = [a]) \<or> (\<exists>a b. t = [a, b])"
  by (cases t rule: day_token.cases) simp_all

lemma day_sound:
  assumes "(g, r) \<in> set (rmatch directive_d s)"
  shows "\<exists>t. s = t @ r \<and> day_token t \<and> g = [(''d'', t)]"
proof (cases s)
  case Nil
  with assms show ?thesis by (simp add: day_nil)
next
  case (Cons a s')
  show ?thesis
  proof (cases s')
    case Nil
    with Cons assms have "day_token [a]" "g = [(''d'', [a])]" "r = []"
      by (simp_all add: day_one del: day_token.simps split: if_splits)
    with Cons Nil show ?thesis by (intro exI [of _ "[a]"]) simp
  next
    case (Cons b s'')
    with \<open>s = a # s'\<close> assms
    have "day_token [a, b] \<and> g = [(''d'', [a, b])] \<and> r = s'' \<or>
          day_token [a] \<and> g = [(''d'', [a])] \<and> r = b # s''"
      by (simp add: day_two del: day_token.simps split: if_splits)
    then show ?thesis
    proof
      assume "day_token [a, b] \<and> g = [(''d'', [a, b])] \<and> r = s''"
      with Cons \<open>s = a # s'\<close> show ?thesis by (intro exI [of _ "[a, b]"]) simp
    next
      assume "day_token [a] \<and> g = [(''d'', [a])] \<and> r = b # s''"
      with Cons \<open>s = a # s'\<close> show ?thesis by (intro exI [of _ "[a]"]) simp
    qed
  qed
qed

lemma day_complete:
  assumes "day_token t"
  shows "([(''d'', t)], r) \<in> set (rmatch directive_d (t @ r))"
proof -
  from assms day_shape consider a where "t = [a]" | a b where "t = [a, b]" by blast
  then show ?thesis
  proof cases
    case 1
    with assms show ?thesis
      by (cases r) (simp_all add: day_one day_two del: day_token.simps)
  next
    case 2
    with assms show ?thesis
      by (simp add: day_two del: day_token.simps)
  qed
qed

text \<open>The month directive, likewise.\<close>

lemma month_nil: "rmatch directive_m [] = []"
  by (simp add: directive_m_def between_def)

lemma month_one:
  "set (rmatch directive_m [a]) = (if month_token [a] then {([(''m'', [a])], [])} else {})"
  by (simp add: directive_m_def between_def)

lemma month_two:
  "set (rmatch directive_m (a # b # r)) =
     (if month_token [a, b] then {([(''m'', [a, b])], r)} else {}) \<union>
     (if month_token [a] then {([(''m'', [a])], b # r)} else {})"
  by (simp add: directive_m_def between_def)

lemma month_shape: "month_token t \<Longrightarrow> (\<exists>a. t = [a]) \<or> (\<exists>a b. t = [a, b])"
  by (cases t rule: month_token.cases) simp_all

lemma month_sound:
  assumes "(g, r) \<in> set (rmatch directive_m s)"
  shows "\<exists>t. s = t @ r \<and> month_token t \<and> g = [(''m'', t)]"
proof (cases s)
  case Nil
  with assms show ?thesis by (simp add: month_nil)
next
  case (Cons a s')
  show ?thesis
  proof (cases s')
    case Nil
    with Cons assms have "month_token [a]" "g = [(''m'', [a])]" "r = []"
      by (simp_all add: month_one del: month_token.simps split: if_splits)
    with Cons Nil show ?thesis by (intro exI [of _ "[a]"]) simp
  next
    case (Cons b s'')
    with \<open>s = a # s'\<close> assms
    have "month_token [a, b] \<and> g = [(''m'', [a, b])] \<and> r = s'' \<or>
          month_token [a] \<and> g = [(''m'', [a])] \<and> r = b # s''"
      by (simp add: month_two del: month_token.simps split: if_splits)
    then show ?thesis
    proof
      assume "month_token [a, b] \<and> g = [(''m'', [a, b])] \<and> r = s''"
      with Cons \<open>s = a # s'\<close> show ?thesis by (intro exI [of _ "[a, b]"]) simp
    next
      assume "month_token [a] \<and> g = [(''m'', [a])] \<and> r = b # s''"
      with Cons \<open>s = a # s'\<close> show ?thesis by (intro exI [of _ "[a]"]) simp
    qed
  qed
qed

lemma month_complete:
  assumes "month_token t"
  shows "([(''m'', t)], r) \<in> set (rmatch directive_m (t @ r))"
proof -
  from assms month_shape consider a where "t = [a]" | a b where "t = [a, b]" by blast
  then show ?thesis
  proof cases
    case 1
    with assms show ?thesis
      by (cases r) (simp_all add: month_one month_two del: month_token.simps)
  next
    case 2
    with assms show ?thesis
      by (simp add: month_two del: month_token.simps)
  qed
qed

text \<open>The year directive takes four digits or nothing.\<close>

lemma year_shape:
  "year_token t \<longleftrightarrow>
   (\<exists>a b c d. t = [a, b, c, d] \<and> is_digit a \<and> is_digit b \<and> is_digit c \<and> is_digit d)"
proof
  assume "year_token t"
  then have l: "length t = 4" and d: "list_all is_digit t" by (simp_all add: year_token_def)
  from l obtain a b c d where "t = [a, b, c, d]"
    by (auto simp: length_Suc_conv numeral_eq_Suc)
  with d show "\<exists>a b c d. t = [a, b, c, d] \<and> is_digit a \<and> is_digit b \<and> is_digit c \<and> is_digit d"
    by simp
next
  assume "\<exists>a b c d. t = [a, b, c, d] \<and> is_digit a \<and> is_digit b \<and> is_digit c \<and> is_digit d"
  then show "year_token t" by (auto simp: year_token_def)
qed

lemma year_four:
  "rmatch directive_Y (a # b # c # d # r) =
     (if is_digit a \<and> is_digit b \<and> is_digit c \<and> is_digit d
      then [([(''Y'', [a, b, c, d])], r)] else [])"
  by (simp add: directive_Y_def)

lemma year_short: "length s < 4 \<Longrightarrow> rmatch directive_Y s = []"
proof -
  assume "length s < 4"
  then consider "s = []" | a where "s = [a]" | a b where "s = [a, b]"
    | a b c where "s = [a, b, c]"
    by (cases s; cases "tl s"; cases "tl (tl s)"; cases "tl (tl (tl s))") auto
  then show ?thesis by cases (simp_all add: directive_Y_def)
qed

lemma year_sound:
  assumes "(g, r) \<in> set (rmatch directive_Y s)"
  shows "\<exists>t. s = t @ r \<and> year_token t \<and> g = [(''Y'', t)]"
proof (cases "length s < 4")
  case True
  with assms show ?thesis by (simp add: year_short)
next
  case False
  then obtain a b c d s' where s: "s = a # b # c # d # s'"
    by (cases s; cases "tl s"; cases "tl (tl s)"; cases "tl (tl (tl s))") auto
  with assms have "is_digit a \<and> is_digit b \<and> is_digit c \<and> is_digit d"
    and "g = [(''Y'', [a, b, c, d])]" and "r = s'"
    by (simp_all add: year_four split: if_splits)
  with s show ?thesis
    by (intro exI [of _ "[a, b, c, d]"]) (simp add: year_token_def)
qed

lemma year_complete:
  assumes "year_token t"
  shows "rmatch directive_Y (t @ r) = [([(''Y'', t)], r)]"
proof -
  from assms obtain a b c d where "t = [a, b, c, d]"
    and "is_digit a \<and> is_digit b \<and> is_digit c \<and> is_digit d"
    unfolding year_shape by blast
  then show ?thesis by (simp add: year_four)
qed

text \<open>
  The whole format matches a day, a dot, a month, a dot and a year, and captures the three
  tokens.
\<close>

lemma format_sound:
  assumes "(g, r) \<in> set (rmatch format_regex s)"
  shows "\<exists>t1 t2 t3. s = t1 @ dot # t2 @ dot # t3 @ r \<and>
           day_token t1 \<and> month_token t2 \<and> year_token t3 \<and>
           g = [(''d'', t1), (''m'', t2), (''Y'', t3)]"
proof -
  from assms obtain g1 s1 g2 where
    d: "(g1, s1) \<in> set (rmatch directive_d s)" and
    r2: "(g2, r) \<in> set (rmatch (Cat (Chr CHR ''.'') (Cat directive_m (Cat (Chr CHR ''.'') directive_Y))) s1)"
    and g: "g = g1 @ g2"
    unfolding format_regex_def mem_Cat [of g r directive_d] by blast
  from d obtain t1 where t1: "s = t1 @ s1" "day_token t1" "g1 = [(''d'', t1)]"
    using day_sound by blast
  from r2 obtain g3 s2 g4 where
    c1: "(g3, s2) \<in> set (rmatch (Chr CHR ''.'') s1)" and
    r3: "(g4, r) \<in> set (rmatch (Cat directive_m (Cat (Chr CHR ''.'') directive_Y)) s2)"
    and g2: "g2 = g3 @ g4"
    unfolding mem_Cat [of g2 r "Chr CHR ''.''"] by blast
  from c1 have s1: "s1 = dot # s2" and g3: "g3 = []"
    unfolding mem_Chr by simp_all
  from r3 obtain g5 s3 g6 where
    m: "(g5, s3) \<in> set (rmatch directive_m s2)" and
    r4: "(g6, r) \<in> set (rmatch (Cat (Chr CHR ''.'') directive_Y) s3)"
    and g4: "g4 = g5 @ g6"
    unfolding mem_Cat [of g4 r directive_m] by blast
  from m obtain t2 where t2: "s2 = t2 @ s3" "month_token t2" "g5 = [(''m'', t2)]"
    using month_sound by blast
  from r4 obtain g7 s4 g8 where
    c2: "(g7, s4) \<in> set (rmatch (Chr CHR ''.'') s3)" and
    y: "(g8, r) \<in> set (rmatch directive_Y s4)"
    and g6: "g6 = g7 @ g8"
    unfolding mem_Cat [of g6 r "Chr CHR ''.''"] by blast
  from c2 have s3: "s3 = dot # s4" and g7: "g7 = []"
    unfolding mem_Chr by simp_all
  from y obtain t3 where t3: "s4 = t3 @ r" "year_token t3" "g8 = [(''Y'', t3)]"
    using year_sound by blast
  have "s = t1 @ dot # t2 @ dot # t3 @ r"
    using t1(1) s1 t2(1) s3 t3(1) by simp
  moreover have "g = [(''d'', t1), (''m'', t2), (''Y'', t3)]"
    using g t1(3) g2 g3 g4 t2(3) g6 g7 t3(3) by simp
  ultimately show ?thesis using t1(2) t2(2) t3(2) by blast
qed

lemma format_complete:
  assumes "day_token t1" and "month_token t2" and "year_token t3"
  shows "([(''d'', t1), (''m'', t2), (''Y'', t3)], r)
           \<in> set (rmatch format_regex (t1 @ dot # t2 @ dot # t3 @ r))"
proof -
  have y: "([(''Y'', t3)], r) \<in> set (rmatch directive_Y (t3 @ r))"
    using year_complete [OF assms(3)] by simp
  have c2: "([], t3 @ r) \<in> set (rmatch (Chr CHR ''.'') (dot # t3 @ r))"
    unfolding mem_Chr by simp
  have r4: "([(''Y'', t3)], r) \<in> set (rmatch (Cat (Chr CHR ''.'') directive_Y) (dot # t3 @ r))"
    unfolding mem_Cat [of _ r "Chr CHR ''.''"] using c2 y by fastforce
  have m: "([(''m'', t2)], dot # t3 @ r) \<in> set (rmatch directive_m (t2 @ dot # t3 @ r))"
    using month_complete [OF assms(2)] .
  have r3: "([(''m'', t2), (''Y'', t3)], r)
      \<in> set (rmatch (Cat directive_m (Cat (Chr CHR ''.'') directive_Y)) (t2 @ dot # t3 @ r))"
    unfolding mem_Cat [of _ r directive_m] using m r4 by fastforce
  have c1: "([], t2 @ dot # t3 @ r)
      \<in> set (rmatch (Chr CHR ''.'') (dot # t2 @ dot # t3 @ r))"
    unfolding mem_Chr by simp
  have r2: "([(''m'', t2), (''Y'', t3)], r)
      \<in> set (rmatch (Cat (Chr CHR ''.'') (Cat directive_m (Cat (Chr CHR ''.'') directive_Y)))
          (dot # t2 @ dot # t3 @ r))"
    unfolding mem_Cat [of _ r "Chr CHR ''.''"] using c1 r3 by fastforce
  have d: "([(''d'', t1)], dot # t2 @ dot # t3 @ r)
      \<in> set (rmatch directive_d (t1 @ dot # t2 @ dot # t3 @ r))"
    using day_complete [OF assms(1)] .
  show ?thesis
    unfolding format_regex_def mem_Cat [of _ r directive_d] using d r2 by fastforce
qed

text \<open>No token has a dot in it, so the string fixes the tokens and the rest.\<close>

lemma day_token_no_dot: "day_token t \<Longrightarrow> dot \<notin> set t"
  using digit_not_dot by (cases t rule: day_token.cases) (auto simp: between_def)

lemma month_token_no_dot: "month_token t \<Longrightarrow> dot \<notin> set t"
  by (cases t rule: month_token.cases) (auto simp: between_def)

lemma year_token_no_dot: "year_token t \<Longrightarrow> dot \<notin> set t"
  using digit_not_dot by (auto simp: year_token_def list_all_iff)

lemma split_unique:
  assumes "xs @ c # ys = xs' @ c # ys'" and "c \<notin> set xs" and "c \<notin> set xs'"
  shows "xs = xs' \<and> ys = ys'"
  using assms
proof (induction xs arbitrary: xs')
  case Nil
  then show ?case by (cases xs') auto
next
  case (Cons x xs)
  then show ?case by (cases xs') auto
qed

lemma format_unique:
  assumes "t1 @ dot # t2 @ dot # t3 @ r = u1 @ dot # u2 @ dot # u3 @ q"
    and "day_token t1" "month_token t2" "year_token t3"
    and "day_token u1" "month_token u2" "year_token u3"
  shows "t1 = u1 \<and> t2 = u2 \<and> t3 = u3 \<and> r = q"
proof -
  from assms(1) day_token_no_dot [OF assms(2)] day_token_no_dot [OF assms(5)]
  have a: "t1 = u1" and b: "t2 @ dot # t3 @ r = u2 @ dot # u3 @ q"
    using split_unique [of t1 "dot" _ u1] by blast+
  from b month_token_no_dot [OF assms(3)] month_token_no_dot [OF assms(6)]
  have c: "t2 = u2" and d: "t3 @ r = u3 @ q"
    using split_unique [of t2 "dot" _ u2] by blast+
  from assms(4,7) have "length t3 = length u3" by (simp add: year_token_def)
  with d have "t3 = u3 \<and> r = q" by simp
  with a c show ?thesis by simp
qed

text \<open>The first match of the format is its only one.\<close>

lemma re_match_format:
  "re_match format_regex s = Some (g, r) \<longleftrightarrow>
   (\<exists>t1 t2 t3. s = t1 @ dot # t2 @ dot # t3 @ r \<and>
      day_token t1 \<and> month_token t2 \<and> year_token t3 \<and>
      g = [(''d'', t1), (''m'', t2), (''Y'', t3)])"
proof
  assume "re_match format_regex s = Some (g, r)"
  then have "(g, r) \<in> set (rmatch format_regex s)"
    by (auto simp: re_match_def split: list.splits)
  then show "\<exists>t1 t2 t3. s = t1 @ dot # t2 @ dot # t3 @ r \<and>
      day_token t1 \<and> month_token t2 \<and> year_token t3 \<and>
      g = [(''d'', t1), (''m'', t2), (''Y'', t3)]"
    by (rule format_sound)
next
  assume "\<exists>t1 t2 t3. s = t1 @ dot # t2 @ dot # t3 @ r \<and>
      day_token t1 \<and> month_token t2 \<and> year_token t3 \<and>
      g = [(''d'', t1), (''m'', t2), (''Y'', t3)]"
  then obtain t1 t2 t3 where s: "s = t1 @ dot # t2 @ dot # t3 @ r"
    and t: "day_token t1" "month_token t2" "year_token t3"
    and g: "g = [(''d'', t1), (''m'', t2), (''Y'', t3)]" by blast
  from format_complete [OF t, of r] s g have "(g, r) \<in> set (rmatch format_regex s)" by simp
  then obtain m ms where ms: "rmatch format_regex s = m # ms"
    by (cases "rmatch format_regex s") auto
  then have "m \<in> set (rmatch format_regex s)" by simp
  then obtain u1 u2 u3 where u: "s = u1 @ dot # u2 @ dot # u3 @ snd m"
    "day_token u1" "month_token u2" "year_token u3"
    "fst m = [(''d'', u1), (''m'', u2), (''Y'', u3)]"
    using format_sound [of "fst m" "snd m" s] by auto
  from format_unique [OF _ t u(2-4), of r "snd m"] s u(1)
  have "t1 = u1 \<and> t2 = u2 \<and> t3 = u3 \<and> r = snd m" by simp
  with g u(5) have "m = (g, r)" by (cases m) simp
  with ms show "re_match format_regex s = Some (g, r)" by (simp add: re_match_def)
qed

subsection \<open>Tokens and numbers\<close>

lemma between_digit: "between CHR ''0'' CHR ''9'' c \<Longrightarrow> is_digit c"
  "between CHR ''1'' CHR ''9'' c \<Longrightarrow> is_digit c"
  "between CHR ''0'' CHR ''1'' c \<Longrightarrow> is_digit c"
  "between CHR ''0'' CHR ''2'' c \<Longrightarrow> is_digit c"
  "between CHR ''1'' CHR ''2'' c \<Longrightarrow> is_digit c"
  by (simp_all add: between_def is_digit_ascii)

lemma space_no_digit: "\<not> is_digit space"
  using is_digit_ge [of space] by auto

lemma day_token_digits:
  assumes "day_token t"
  shows "t \<noteq> [] \<and> list_all is_digit t \<or> (\<exists>b. t = [space, b] \<and> is_digit b)"
proof -
  from assms day_shape consider a where "t = [a]" | a b where "t = [a, b]" by blast
  then show ?thesis
  proof cases
    case 1
    with assms show ?thesis by (simp add: between_digit)
  next
    case 2
    with assms have "is_digit b" by (auto simp: between_digit)
    moreover from 2 assms have "is_digit a \<or> a = space"
      by (auto simp: between_digit is_digit_ascii)
    ultimately show ?thesis using 2 by auto
  qed
qed

lemma day_token_field: "day_token t \<Longrightarrow> day_field t"
  using day_token_digits [of t] day_shape [of t] by (auto simp: day_field_def)

lemma month_token_digits: "month_token t \<Longrightarrow> t \<noteq> [] \<and> list_all is_digit t"
  using month_shape [of t] by (auto simp: between_digit is_digit_ascii)

lemma month_token_field: "month_token t \<Longrightarrow> month_field t"
  using month_token_digits [of t] month_shape [of t] by (auto simp: month_field_def)

lemma year_token_field: "year_token t \<Longrightarrow> year_field t"
  by (auto simp: year_token_def year_field_def)

text \<open>\<^verbatim>\<open>int\<close> on a token is the number of its digits.\<close>

lemma dropWhile_hd: "xs \<noteq> [] \<Longrightarrow> \<not> P (hd xs) \<Longrightarrow> dropWhile P xs = xs"
  by (cases xs) simp_all

lemma strip_digits:
  assumes "t \<noteq> []" and "list_all is_digit t"
  shows "strip t = t"
proof -
  from assms have "\<not> isspace (hd t)" and "\<not> isspace (last t)"
    by (auto simp: list_all_iff digit_not_space)
  with assms(1) have "dropWhile isspace t = t" and "dropWhile isspace (rev t) = rev t"
    by (simp_all add: dropWhile_hd hd_rev)
  then show ?thesis by (simp add: strip_def)
qed

lemma py_int_digits:
  assumes "t \<noteq> []" and "list_all is_digit t"
  shows "py_int t = Inr (number t)"
  using assms strip_digits [OF assms] by (simp add: py_int_def number_def)

lemma py_int_space_digit:
  assumes "is_digit b"
  shows "py_int [space, b] = Inr (number [b])"
  using assms digit_not_space [OF assms]
  by (simp add: py_int_def strip_def number_def isspace_def whitespace_def)

lemma py_int_day:
  assumes "day_token t"
  shows "py_int t = Inr (day_number t)"
  using day_token_digits [OF assms]
proof
  assume "t \<noteq> [] \<and> list_all is_digit t"
  then show ?thesis
    using py_int_digits [of t] by (simp add: day_number_def list_all_iff)
next
  assume "\<exists>b. t = [space, b] \<and> is_digit b"
  then show ?thesis
    using py_int_space_digit space_no_digit by (auto simp: day_number_def)
qed

lemma py_int_month: "month_token t \<Longrightarrow> py_int t = Inr (number t)"
  using month_token_digits [of t] by (simp add: py_int_digits)

lemma py_int_year: "year_token t \<Longrightarrow> py_int t = Inr (number t)"
  by (rule py_int_digits) (auto simp: year_token_def)

subsection \<open>What strptime accepts\<close>

lemma strptime_tokens:
  assumes "day_token t1" and "month_token t2" and "year_token t3"
  shows "strptime (t1 @ dot # t2 @ dot # t3) =
           date_new (number t3) (number t2) (day_number t1)"
proof -
  have "re_match format_regex (t1 @ dot # t2 @ dot # t3)
          = Some ([(''d'', t1), (''m'', t2), (''Y'', t3)], [])"
    unfolding re_match_format using assms by auto
  then show ?thesis
    by (simp add: strptime_def group_def py_int_day [OF assms(1)] py_int_month [OF assms(2)]
        py_int_year [OF assms(3)])
qed

lemma strptime_no_tokens:
  assumes "\<not> (\<exists>t1 t2 t3. v = t1 @ dot # t2 @ dot # t3 \<and>
              day_token t1 \<and> month_token t2 \<and> year_token t3)"
  shows "\<exists>msg. strptime v = Inl (ValueError msg)"
proof (cases "re_match format_regex v")
  case None
  then show ?thesis by (simp add: strptime_def)
next
  case (Some m)
  obtain g r where m: "m = (g, r)" by (cases m)
  with Some have "re_match format_regex v = Some (g, r)" by simp
  then obtain t1 t2 t3 where "v = t1 @ dot # t2 @ dot # t3 @ r"
    "day_token t1" "month_token t2" "year_token t3"
    unfolding re_match_format by blast
  with assms have "r \<noteq> []" by auto
  with Some m show ?thesis by (simp add: strptime_def)
qed

lemma date_new_real:
  "real_date y m d \<Longrightarrow> date_new y m d = Inr \<lparr>year = y, month = m, day = d\<rparr>"
  by (simp add: real_date_def date_new_def)

lemma date_new_InrD:
  "date_new y m d = Inr x \<Longrightarrow> real_date y m d \<and> x = \<lparr>year = y, month = m, day = d\<rparr>"
  by (auto simp: real_date_def date_new_def split: if_splits)

lemma split_dot_plain: "dot \<notin> set t \<Longrightarrow> split_dot t = [t]"
  by (induction t) auto

lemma split_dot_append:
  "dot \<notin> set t \<Longrightarrow> split_dot (t @ dot # u) = t # split_dot u"
  by (induction t) auto

lemma split_dot_three:
  assumes "dot \<notin> set t1" and "dot \<notin> set t2" and "dot \<notin> set t3"
  shows "split_dot (t1 @ dot # t2 @ dot # t3) = [t1, t2, t3]"
  using assms by (simp add: split_dot_append split_dot_plain)

text \<open>
  What \<^verbatim>\<open>strptime\<close> accepts is in the specification's wider format, and the date it
  returns is the date of that format.
\<close>

lemma strptime_lenient:
  assumes "strptime v = Inr d"
  shows "lenient_date v = Some d"
proof -
  have "\<exists>t1 t2 t3. v = t1 @ dot # t2 @ dot # t3 \<and>
          day_token t1 \<and> month_token t2 \<and> year_token t3"
    using strptime_no_tokens [of v] assms by auto
  then obtain t1 t2 t3 where v: "v = t1 @ dot # t2 @ dot # t3"
    and t: "day_token t1" "month_token t2" "year_token t3" by blast
  have sp: "split_dot v = [t1, t2, t3]"
    unfolding v using t day_token_no_dot month_token_no_dot year_token_no_dot
    by (intro split_dot_three) auto
  have f: "day_field t1" "month_field t2" "year_field t3"
    using t by (simp_all add: day_token_field month_token_field year_token_field)
  have "strptime v = date_new (number t3) (number t2) (day_number t1)"
    unfolding v using t by (rule strptime_tokens)
  with assms date_new_InrD
  have "real_date (number t3) (number t2) (day_number t1)"
    and "d = \<lparr>year = number t3, month = number t2, day = day_number t1\<rparr>" by auto
  with sp f show ?thesis by (simp add: lenient_date_def)
qed

text \<open>The parser and the constructor raise nothing but a \<^verbatim>\<open>ValueError\<close>.\<close>

lemma date_new_exn: "date_new y m d = Inl e \<Longrightarrow> \<exists>msg. e = ValueError msg"
  by (auto simp: date_new_def split: if_splits)

lemma py_int_exn: "py_int s = Inl e \<Longrightarrow> \<exists>msg. e = ValueError msg"
  by (auto simp: py_int_def Let_def split: if_splits)

lemma strptime_exn: "strptime v = Inl e \<Longrightarrow> \<exists>msg. e = ValueError msg"
  unfolding strptime_def
  by (auto split: option.splits prod.splits if_splits sum.splits dest: py_int_exn date_new_exn)

lemma Birthday_exn: "Birthday v = Inl e \<Longrightarrow> e = ValueError [Fixed DateFormatMsg]"
  unfolding Birthday_def
  by (auto split: sum.splits exn.splits dest: strptime_exn)

lemma Birthday_InrD: "Birthday v = Inr d \<Longrightarrow> strptime v = Inr d"
  unfolding Birthday_def by (auto split: sum.splits exn.splits)

lemma Birthday_lenient: "Birthday v = Inr d \<Longrightarrow> lenient_date v = Some d"
  using Birthday_InrD [of v d] strptime_lenient [of v d] by auto

text \<open>Evaluating the constructor on a given string.\<close>

lemmas eval_defs = Birthday_def strptime_def re_match_def format_regex_def directive_d_def
  directive_m_def directive_Y_def group_def py_int_def strip_def isspace_def whitespace_def
  is_digit_def todecimal_def digit_zeros_def digit_val_def date_new_def days_in_month_def
  is_leap_def

lemmas spec_defs = lenient_date_def day_field_def month_field_def year_field_def number_def
  day_number_def digit_val_def is_digit_def todecimal_def digit_zeros_def real_date_def
  days_in_month_def is_leap_def

lemma Birthday_leap_day:
  "Birthday (ascii ''29.02.2024'') = Inr \<lparr>year = 2024, month = 2, day = 29\<rparr>"
  by (simp add: eval_defs)

text \<open>
  A digit of another script is taken where the pattern says \<^verbatim>\<open>\d\<close>: the second digit of
  the day and the last of the year are the Arabic-Indic five and zero here.
\<close>

lemma Birthday_other_script:
  "Birthday [49, 1637, 46, 48, 51, 46, 49, 57, 57, 1632]
     = Inr \<lparr>year = 1990, month = 3, day = 15\<rparr>"
  by (simp add: eval_defs)

text \<open>
  Claim C5, as stated, fails: \<open>1.3.1990\<close> has a one-digit day and a one-digit month, so it is
  not in the zero-padded format, and the constructor accepts it as 1 March 1990.
\<close>

theorem Birthday_unpadded_counterexample:
  "\<not> padded_format (ascii ''1.3.1990'') \<and>
   Birthday (ascii ''1.3.1990'') = Inr \<lparr>year = 1990, month = 3, day = 1\<rparr>"
  by (simp add: padded_format_def eval_defs)

text \<open>
  Claim C5, amended. \<^verbatim>\<open>Birthday(value)\<close> raises the format error unless \<open>value\<close> is
  day.month.year with a day of one or two decimal digits (or a space and one digit), a
  month of one or two decimal digits and a year of four decimal digits, and the three
  numbers are a real calendar date.
\<close>

theorem Birthday_fails_unless_lenient_date:
  "lenient_date v = None \<Longrightarrow> Birthday v = Inl (ValueError [Fixed DateFormatMsg])"
proof (cases "Birthday v")
  case (Inl e)
  then show ?thesis using Birthday_exn by simp
next
  case (Inr d)
  assume "lenient_date v = None"
  with Birthday_lenient [OF Inr] show ?thesis by simp
qed

theorem Birthday_fails_unless_lenient_date_witness:
  "lenient_date (ascii ''31.04.1990'') = None \<and>
   Birthday (ascii ''31.04.1990'') = Inl (ValueError [Fixed DateFormatMsg])"
  using Birthday_fails_unless_lenient_date [of "ascii ''31.04.1990''"]
  by (simp add: spec_defs)

subsection \<open>The round trip\<close>

















section \<open>Upcoming birthdays\<close>

lemma date_new_feb_29: "\<not> is_leap y \<Longrightarrow> \<exists>msg. date_new y 2 29 = Inl (ValueError msg)"
  by (simp add: date_new_def days_in_month_def)

lemma upcoming_loop_exn:
  "upcoming_loop today days rs acc = Inl e \<Longrightarrow> \<exists>msg. e = ValueError msg"
proof (induction rs arbitrary: acc)
  case Nil
  then show ?case by simp
next
  case (Cons r rs)
  then show ?case
    by (auto simp: replace_year_def split: option.splits sum.splits if_splits dest: date_new_exn)
qed

text \<open>
  Where every birthday has a date in today's year, the query returns the records in the
  window, in the order of the book.
\<close>

lemma upcoming_loop_filter:
  "list_all (replaceable today) rs \<Longrightarrow>
   upcoming_loop today days rs acc = Inr (acc @ filter (in_window today days) rs)"
proof (induction rs arbitrary: acc)
  case Nil
  then show ?case by simp
next
  case (Cons r rs)
  then show ?case
    by (auto simp: replaceable_def in_window_def split: option.splits sum.splits)
qed

lemma get_upcoming_birthdays_filter:
  "list_all (replaceable today) (map snd book) \<Longrightarrow>
   get_upcoming_birthdays today days book = Inr (filter (in_window today days) (map snd book))"
  by (simp add: get_upcoming_birthdays_def upcoming_loop_filter)

text \<open>A birthday whose month and day are today's is in the window: it is 0 days away.\<close>

lemma birthday_today_in_window:
  assumes "real_date (year today) (month today) (day today)" and "birthday r = Some b"
    and "month b = month today" and "day b = day today" and "0 \<le> days"
  shows "in_window today days r"
  using assms
  by (simp add: in_window_def replace_year_def date_new_real days_between_def toordinal_def)

text \<open>One record whose birthday is a 29 February stops the loop in a year that is not leap.\<close>

lemma upcoming_loop_feb_29:
  assumes "r \<in> set rs" and "birthday r = Some b" and "month b = 2" and "day b = 29"
    and "\<not> is_leap (year today)"
  shows "\<exists>msg. upcoming_loop today days rs acc = Inl (ValueError msg)"
  using assms(1)
proof (induction rs arbitrary: acc)
  case Nil
  then show ?case by simp
next
  case (Cons x xs)
  show ?case
  proof (cases "x = r")
    case True
    then show ?thesis
      using assms(2-5) date_new_feb_29 [of "year today"]
      by (auto simp: replace_year_def)
  next
    case False
    with Cons.prems have "r \<in> set xs" by simp
    then have ih: "\<And>acc. \<exists>msg. upcoming_loop today days xs acc = Inl (ValueError msg)"
      using Cons.IH by blast
    show ?thesis
    proof (cases "birthday x")
      case None
      then show ?thesis using ih by simp
    next
      case (Some bx)
      show ?thesis
      proof (cases "replace_year bx (year today)")
        case (Inl e)
        then obtain msg where "e = ValueError msg"
          unfolding replace_year_def using date_new_exn by blast
        with Some Inl show ?thesis by simp
      next
        case (Inr bd)
        with Some show ?thesis using ih by simp
      qed
    qed
  qed
qed

text \<open>
  Claim C3. The claim asks the query to return the records in the window for every book.
  With a birthday on 29 February 2000 in the book and today in 2023, replacing the year
  raises and the query returns no list. On every book without such a birthday the query
  is the filter the claim describes (\<open>get_upcoming_birthdays_filter\<close>).
\<close>

theorem upcoming_fails_on_leap_day_birthday:
  "get_upcoming_birthdays \<lparr>year = 2023, month = 2, day = 25\<rparr> 7
     [((ascii ''Eve''), \<lparr>name = (ascii ''Eve''), phones = [],
               birthday = Some \<lparr>year = 2000, month = 2, day = 29\<rparr>\<rparr>)]
   = Inl (ValueError [Fixed DayOutOfRange])"
  by (simp add: get_upcoming_birthdays_def replace_year_def date_new_def days_in_month_def
      is_leap_def)

text \<open>
  Claim C10. If a record of the book has its birthday on 29 February and today's year is
  not a leap year, \<^verbatim>\<open>get_upcoming_birthdays\<close> raises a \<^verbatim>\<open>ValueError\<close> instead
  of returning a list.
\<close>

theorem upcoming_raises_on_feb_29:
  assumes "(k, r) \<in> set book" and "birthday r = Some b" and "month b = 2" and "day b = 29"
    and "\<not> is_leap (year today)"
  shows "\<exists>msg. get_upcoming_birthdays today days book = Inl (ValueError msg)"
proof -
  from assms(1) have "r \<in> set (map snd book)" by force
  then show ?thesis
    unfolding get_upcoming_birthdays_def
    using assms(2-5) by (rule upcoming_loop_feb_29)
qed

text \<open>
  The book of the witness is one the handlers build: a contact is added and given the
  birthday 29.02.2024; the query is asked in 2023.
\<close>

lemma reachable_leap_day_book:
  "snd (add_birthday [(ascii ''Ann''), (ascii ''29.02.2024'')] (snd (add_contact [(ascii ''Ann''), (ascii ''0671234567'')] [])))
   = [((ascii ''Ann''), \<lparr>name = (ascii ''Ann''), phones = [(ascii ''0671234567'')],
               birthday = Some \<lparr>year = 2024, month = 2, day = 29\<rparr>\<rparr>)]"
  by (simp add: add_birthday_def add_contact_def input_error_def Record_def Name_def
      add_contact_phone_def add_phone_def Phone_def validate_ten_digits ten_digits_def
      digit_eval add_record_def find_record_def record_add_birthday_def Birthday_leap_day [simplified])

theorem upcoming_raises_on_feb_29_witness:
  "\<exists>msg. get_upcoming_birthdays \<lparr>year = 2023, month = 3, day = 1\<rparr> 7
     (snd (add_birthday [(ascii ''Ann''), (ascii ''29.02.2024'')] (snd (add_contact [(ascii ''Ann''), (ascii ''0671234567'')] []))))
   = Inl (ValueError msg)"
  unfolding reachable_leap_day_book
  using upcoming_raises_on_feb_29 [of "ascii ''Ann''"
      "\<lparr>name = (ascii ''Ann''), phones = [(ascii ''0671234567'')],
        birthday = Some \<lparr>year = 2024, month = 2, day = 29\<rparr>\<rparr>"
      "[((ascii ''Ann''), \<lparr>name = (ascii ''Ann''), phones = [(ascii ''0671234567'')],
               birthday = Some \<lparr>year = 2024, month = 2, day = 29\<rparr>\<rparr>)]"
      "\<lparr>year = 2024, month = 2, day = 29\<rparr>" "\<lparr>year = 2023, month = 3, day = 1\<rparr>" 7]
  by (simp add: is_leap_def)

section \<open>The handlers\<close>

lemma set_item_append: "map_of book k = None \<Longrightarrow> set_item book k v = book @ [(k, v)]"
  by (induction book) (auto split: if_splits)

text \<open>
  Claim C9, as stated, fails. The empty string is not 10 digits, and with it as the phone
  argument \<^verbatim>\<open>add_contact\<close> skips \<^verbatim>\<open>add_phone\<close> and reports the contact as added.
  With the empty string as the name, \<^verbatim>\<open>Record\<close> raises before anything is inserted, and
  the book stays empty.
\<close>

theorem add_contact_empty_phone_counterexample:
  "find_record [] (ascii ''Ann'') = None \<and> \<not> ten_digits [] \<and>
   add_contact [(ascii ''Ann''), []] [] =
     (Inr [Fixed ContactAdded], [((ascii ''Ann''), \<lparr>name = (ascii ''Ann''), phones = [], birthday = None\<rparr>)]) \<and>
   find_record [] [] = None \<and> \<not> ten_digits (ascii ''12'') \<and>
   add_contact [[], (ascii ''12'')] [] = (Inr [Fixed ErrorPrefix, Fixed EmptyNameMsg], [])"
  by (simp add: add_contact_def input_error_def Record_def Name_def add_contact_phone_def
      add_record_def find_record_def ten_digits_def)

text \<open>
  Claim C9, amended. When \<^verbatim>\<open>add_contact\<close> is called with a non-empty name that is
  not in the book and a non-empty phone argument that is not 10 decimal digits, it returns
  the error string of the phone format, and the book afterwards has, at its end, a record
  under that name with no phone.
\<close>

theorem add_contact_failed_add_inserts_record:
  assumes "find_record book n = None" and "n \<noteq> []" and "phone \<noteq> []"
    and "\<not> ten_digits phone"
  shows "add_contact (n # phone # rest) book =
           (Inr [Fixed ErrorPrefix, Fixed PhoneFormatMsg],
            book @ [(n, \<lparr>name = n, phones = [], birthday = None\<rparr>)])"
  using assms
  by (simp add: add_contact_def input_error_def Record_def Name_def add_contact_phone_def
      add_phone_def Phone_def validate_ten_digits add_record_def find_record_def set_item_append)

theorem add_contact_failed_add_inserts_record_witness:
  "add_contact [(ascii ''Ann''), (ascii ''123'')] [] =
     (Inr [Fixed ErrorPrefix, Fixed PhoneFormatMsg],
      [((ascii ''Ann''), \<lparr>name = (ascii ''Ann''), phones = [], birthday = None\<rparr>)])"
  using add_contact_failed_add_inserts_record [of "[]" "ascii ''Ann''" "ascii ''123''" "[]"]
  by (simp add: find_record_def ten_digits_def)

text \<open>A phone of ten Arabic-Indic digits is a valid one, and the contact is added with it.\<close>

lemma add_contact_other_script:
  "add_contact [ascii ''Ann'', [1632, 1638, 1639, 1633, 1634, 1635, 1636, 1637, 1638, 1639]] [] =
     (Inr [Fixed ContactAdded],
      [(ascii ''Ann'',
        \<lparr>name = ascii ''Ann'',
         phones = [[1632, 1638, 1639, 1633, 1634, 1635, 1636, 1637, 1638, 1639]],
         birthday = None\<rparr>)])"
  by (simp add: add_contact_def input_error_def Record_def Name_def add_contact_phone_def
      add_phone_def Phone_def validate_ten_digits ten_digits_def digit_eval add_record_def
      find_record_def)

text \<open>What \<^verbatim>\<open>input_error\<close> catches is enough when the body raises nothing else.\<close>

lemma input_error_returns:
  assumes "\<And>e. fst (f args book) = Inl e \<Longrightarrow> \<exists>msg. e = ValueError msg \<or> e = IndexError"
  shows "\<exists>result book'. input_error f args book = (Inr result, book')"
proof (cases "f args book")
  case (Pair res b)
  show ?thesis
  proof (cases res)
    case (Inl e)
    with Pair assms have "\<exists>msg. e = ValueError msg \<or> e = IndexError" by simp
    with Pair Inl show ?thesis by (auto simp: input_error_def)
  next
    case (Inr t)
    with Pair show ?thesis by (simp add: input_error_def)
  qed
qed

lemma add_contact_body_exn:
  "fst (add_contact_body args book) = Inl e \<Longrightarrow> \<exists>msg. e = ValueError msg \<or> e = IndexError"
  by (cases "(args, book)" rule: add_contact_body.cases)
    (auto simp: add_contact_phone_def Record_def Name_def add_phone_def Phone_def
      split: option.splits sum.splits if_splits)

lemma change_contact_body_exn:
  "fst (change_contact_body args book) = Inl e \<Longrightarrow> \<exists>msg. e = ValueError msg \<or> e = IndexError"
  by (cases "(args, book)" rule: change_contact_body.cases)
    (auto simp: edit_phone_def split: option.splits sum.splits if_splits)

lemma show_phone_body_exn:
  "fst (show_phone_body args book) = Inl e \<Longrightarrow> \<exists>msg. e = ValueError msg \<or> e = IndexError"
  by (cases "(args, book)" rule: show_phone_body.cases) (auto split: option.splits)

lemma add_birthday_body_exn:
  "fst (add_birthday_body args book) = Inl e \<Longrightarrow> \<exists>msg. e = ValueError msg \<or> e = IndexError"
  by (cases "(args, book)" rule: add_birthday_body.cases)
    (auto simp: record_add_birthday_def split: option.splits sum.splits if_splits
      dest: Birthday_exn)

lemma show_birthday_body_exn:
  "fst (show_birthday_body args book) = Inl e \<Longrightarrow> \<exists>msg. e = ValueError msg \<or> e = IndexError"
  by (cases "(args, book)" rule: show_birthday_body.cases) (auto split: option.splits)

lemma birthdays_body_exn:
  "fst (birthdays_body today args book) = Inl e \<Longrightarrow> \<exists>msg. e = ValueError msg \<or> e = IndexError"
  by (auto simp: birthdays_body_def get_upcoming_birthdays_def
      split: sum.splits if_splits dest: upcoming_loop_exn)

text \<open>
  Claim C8. Every handler the command loop calls (add, change, phone, all, add-birthday,
  show-birthday, birthdays), on every argument list, book and current date, returns a
  string: no exception leaves the call.
\<close>

theorem handlers_return_string:
  "\<exists>result book'. run_command c today args book = (Inr result, book')"
proof (cases c)
  case Add
  then show ?thesis
    using input_error_returns [of add_contact_body args book] add_contact_body_exn
    by (simp add: add_contact_def)
next
  case Change
  then show ?thesis
    using input_error_returns [of change_contact_body args book] change_contact_body_exn
    by (simp add: change_contact_def)
next
  case PhoneCmd
  then show ?thesis
    using input_error_returns [of show_phone_body args book] show_phone_body_exn
    by (simp add: show_phone_def)
next
  case All
  then show ?thesis by simp
next
  case AddBirthday
  then show ?thesis
    using input_error_returns [of add_birthday_body args book] add_birthday_body_exn
    by (simp add: add_birthday_def)
next
  case ShowBirthday
  then show ?thesis
    using input_error_returns [of show_birthday_body args book] show_birthday_body_exn
    by (simp add: show_birthday_def)
next
  case Birthdays
  then show ?thesis
    using input_error_returns [of "birthdays_body today" args book] birthdays_body_exn
    by (simp add: birthdays_def)
qed

theorem handlers_return_string_witness:
  "\<exists>result book'. run_command Birthdays \<lparr>year = 2023, month = 3, day = 1\<rparr> []
      [((ascii ''Ann''), \<lparr>name = (ascii ''Ann''), phones = [(ascii ''0671234567'')],
               birthday = Some \<lparr>year = 2024, month = 2, day = 29\<rparr>\<rparr>)] = (Inr result, book')"
  by (rule handlers_return_string)

end
